theory Spec2Isabelle
  imports Main "HOL-Library.List_Lexorder"
begin

section \<open>Data model (client-app/src/App.tsx, server console)\<close>

text \<open>
  Both applications declare the same entity types. Record fields carry a prefix because
  the two entities share field names (\<open>id\<close>, \<open>status\<close>, \<open>error\<close>). Strings are lists of
  code units; optional properties (\<open>description?\<close>, \<open>error?\<close>, \<open>finishedAt?\<close>) are options.
\<close>

datatype ExecutionStatus = pending | running | success | error

record CommandDefinition =
  cmd_id :: string
  cmd_name :: string
  cmd_executable :: string
  cmd_args :: "string list"
  cmd_description :: "string option"
  cmd_tags :: "string list"
  cmd_allowArguments :: bool
  cmd_createdAt :: string
  cmd_updatedAt :: string

record ExecutionLog =
  log_id :: string
  log_commandId :: string
  log_commandName :: string
  log_requestedBy :: string
  log_status :: ExecutionStatus
  log_output :: string
  log_error :: "string option"
  log_parameters :: "string list"
  log_startedAt :: string
  log_finishedAt :: "string option"

datatype ServerEvent =
    command_created CommandDefinition
  | command_updated CommandDefinition
  | command_deleted string
  | execution_started ExecutionLog
  | execution_updated ExecutionLog
  | execution_finished ExecutionLog

datatype ConnectionStatus = disconnected | connecting | connected

section \<open>The JavaScript runtime the code calls into\<close>

text \<open>
  \<open>String.prototype.toLowerCase\<close>, \<open>String.prototype.localeCompare\<close> and
  \<open>dayjs(s).valueOf()\<close> are library functions. They are parameters of the model:
  \<open>localeCompare\<close> is the three-way comparison of collation keys in a linear order,
  and \<open>dayjsValueOf\<close> gives the epoch milliseconds of a timestamp that parses. A
  timestamp that does not parse (\<open>NaN\<close>) is outside the model: it makes the comparator
  inconsistent, and the order \<open>sort\<close> then produces is implementation-defined.
\<close>

record 'k runtime =
  toLowerCase :: "string \<Rightarrow> string"
  collationKey :: "string \<Rightarrow> 'k"
  dayjsValueOf :: "string \<Rightarrow> int"

definition localeCompare :: "('k::linorder) runtime \<Rightarrow> string \<Rightarrow> string \<Rightarrow> int" where
  "localeCompare rt a b =
     (if collationKey rt a < collationKey rt b then - 1
      else if collationKey rt a = collationKey rt b then 0 else 1)"

text \<open>
  \<open>Array.prototype.sort(cmp)\<close> is a stable sort: an element goes before the first
  element it does not compare greater than, so equal elements keep their order.
\<close>

fun insertBy :: "('a \<Rightarrow> 'a \<Rightarrow> int) \<Rightarrow> 'a \<Rightarrow> 'a list \<Rightarrow> 'a list" where
  "insertBy cmp x [] = [x]"
| "insertBy cmp x (y # ys) = (if cmp x y \<le> 0 then x # y # ys else y # insertBy cmp x ys)"

definition array_sort :: "('a \<Rightarrow> 'a \<Rightarrow> int) \<Rightarrow> 'a list \<Rightarrow> 'a list" where
  "array_sort cmp xs = foldr (insertBy cmp) xs []"

text \<open>The two comparators of the source.\<close>

definition byName :: "('k::linorder) runtime \<Rightarrow> CommandDefinition \<Rightarrow> CommandDefinition \<Rightarrow> int" where
  "byName rt a b = localeCompare rt (toLowerCase rt (cmd_name a)) (toLowerCase rt (cmd_name b))"

definition byStartedAtDesc :: "'k runtime \<Rightarrow> ExecutionLog \<Rightarrow> ExecutionLog \<Rightarrow> int" where
  "byStartedAtDesc rt a b = dayjsValueOf rt (log_startedAt b) - dayjsValueOf rt (log_startedAt a)"

section \<open>Session store: URL normalisation, persistence, login and logout\<close>

subsection \<open>String operations of the runtime\<close>

text \<open>
  \<open>String.prototype.trim\<close> removes white space and line terminators at both ends; of
  the code units a \<open>char\<close> can hold these are 9 to 13, 32 and 160.
\<close>

definition isWhiteSpace :: "char \<Rightarrow> bool" where
  "isWhiteSpace c = (of_char c \<in> {9, 10, 11, 12, 13, 32, 160 :: nat})"

definition trim :: "string \<Rightarrow> string" where
  "trim s = rev (dropWhile isWhiteSpace (rev (dropWhile isWhiteSpace s)))"

text \<open>
  \<open>s.replace(/\/+$/, '')\<close>: the regular expression matches at the leftmost position from
  which only slashes (at least one) remain up to the end, and the match is deleted.
\<close>

fun replaceTrailingSlashes :: "string \<Rightarrow> string" where
  "replaceTrailingSlashes [] = []"
| "replaceTrailingSlashes (c # cs) =
     (if list_all (\<lambda>x. x = CHR ''/'') (c # cs) then [] else c # replaceTrailingSlashes cs)"

definition asciiLower :: "char \<Rightarrow> char" where
  "asciiLower c = (let n = (of_char c :: nat) in if 65 \<le> n \<and> n \<le> 90 then char_of (n + 32) else c)"

text \<open>A literal of the pattern matched at the head of the input, ignoring case (flag \<open>i\<close>).\<close>

fun matchIgnoreCase :: "string \<Rightarrow> string \<Rightarrow> string option" where
  "matchIgnoreCase [] s = Some s"
| "matchIgnoreCase (p # ps) [] = None"
| "matchIgnoreCase (p # ps) (c # cs) =
     (if asciiLower c = asciiLower p then matchIgnoreCase ps cs else None)"

fun matched :: "'a option \<Rightarrow> bool" where
  "matched None = False"
| "matched (Some r) = True"

text \<open>\<open>/^https?:\/\//i.test(s)\<close>: the optional \<open>s\<close> is tried first, then skipped.\<close>

definition hasHttpScheme :: "string \<Rightarrow> bool" where
  "hasHttpScheme s =
     (case matchIgnoreCase ''http'' s of
        None \<Rightarrow> False
      | Some r \<Rightarrow>
          (case matchIgnoreCase ''s'' r of
             Some q \<Rightarrow> (if matched (matchIgnoreCase ''://'' q) then True
                        else matched (matchIgnoreCase ''://'' r))
           | None \<Rightarrow> matched (matchIgnoreCase ''://'' r)))"

definition normalizeServerUrl :: "string \<Rightarrow> string" where
  "normalizeServerUrl input =
     (let trimmed = trim input in
      if trimmed = [] then []
      else (let withoutTrailingSlash = replaceTrailingSlashes trimmed in
            if \<not> hasHttpScheme withoutTrailingSlash then ''https://'' @ withoutTrailingSlash
            else withoutTrailingSlash))"

subsection \<open>Store state, durable storage and the network\<close>

record StoreState =
  serverUrl :: string
  token :: string
  status :: ConnectionStatus
  socketConnected :: bool
  loading :: bool
  error_message :: "string option"
  commands :: "CommandDefinition list"
  history :: "ExecutionLog list"

text \<open>Every request the store hands to axios is appended to a log, in the order issued.\<close>

datatype request =
    LoginPost string string string
  | CommandsGet string string
  | HistoryGet string string
  | ExecutePost string string "string list"

text \<open>
  What a rejected call throws: an axios error with its own message and, when a response
  came back, \<open>response.data.message\<close> and \<open>response.statusText\<close>; or any other error.
\<close>

datatype thrown =
    AxiosError string "string option" "string option"
  | OtherError string

fun errorMessage :: "string \<Rightarrow> thrown \<Rightarrow> string" where
  "errorMessage fallback (AxiosError msg dataMessage statusText) =
     (case dataMessage of
        Some m \<Rightarrow> m
      | None \<Rightarrow> (case statusText of Some t \<Rightarrow> t | None \<Rightarrow> fallback))"
| "errorMessage fallback (OtherError msg) = msg"

fun thrownMessage :: "thrown \<Rightarrow> string" where
  "thrownMessage (AxiosError msg dataMessage statusText) = msg"
| "thrownMessage (OtherError msg) = msg"

text \<open>
  \<open>localStorage\<close> is \<open>None\<close> where \<open>typeof window === 'undefined'\<close>: every access in the
  source is guarded by that test.
\<close>

record world =
  store :: StoreState
  localStorage :: "(string \<rightharpoonup> string) option"
  requests :: "request list"

definition SESSION_STORAGE_KEY :: string where
  "SESSION_STORAGE_KEY = ''rcc.client.session''"

definition SERVER_STORAGE_KEY :: string where
  "SERVER_STORAGE_KEY = ''rcc.client.server''"

definition getItem :: "world \<Rightarrow> string \<Rightarrow> string option" where
  "getItem w k = (case localStorage w of None \<Rightarrow> None | Some ls \<Rightarrow> ls k)"

definition setItem :: "string \<Rightarrow> string \<Rightarrow> world \<Rightarrow> world" where
  "setItem k v w = w\<lparr>localStorage := map_option (\<lambda>ls. ls(k \<mapsto> v)) (localStorage w)\<rparr>"

definition removeItem :: "string \<Rightarrow> world \<Rightarrow> world" where
  "removeItem k w = w\<lparr>localStorage := map_option (\<lambda>ls. ls(k := None)) (localStorage w)\<rparr>"

subsection \<open>initialSession and the initial store\<close>

text \<open>
  \<open>JSON.parse\<close> is a parameter: \<open>None\<close> when it throws (or yields \<open>null\<close>, whose property
  access throws), otherwise the \<open>serverUrl\<close> and \<open>token\<close> properties of the parsed value.
\<close>

type_synonym jsonParse = "string \<Rightarrow> (string option \<times> string option) option"

definition orEmpty :: "string option \<Rightarrow> string" where
  "orEmpty v = (case v of None \<Rightarrow> [] | Some s \<Rightarrow> s)"

definition initialSession :: "jsonParse \<Rightarrow> (string \<rightharpoonup> string) option \<Rightarrow> string \<times> string" where
  "initialSession parse window =
     (case window of
        None \<Rightarrow> ([], [])
      | Some ls \<Rightarrow>
          (case ls SESSION_STORAGE_KEY of
             Some (c # cs) \<Rightarrow>
               (case parse (c # cs) of
                  None \<Rightarrow> ([], [])
                | Some (parsedUrl, parsedToken) \<Rightarrow> (orEmpty parsedUrl, orEmpty parsedToken))
           | _ \<Rightarrow> (orEmpty (ls SERVER_STORAGE_KEY), [])))"

definition initialStore :: "jsonParse \<Rightarrow> (string \<rightharpoonup> string) option \<Rightarrow> StoreState" where
  "initialStore parse window =
     \<lparr>serverUrl = fst (initialSession parse window),
      token = snd (initialSession parse window),
      status = (if snd (initialSession parse window) \<noteq> [] then connecting else disconnected),
      socketConnected = False,
      loading = False,
      error_message = None,
      commands = [],
      history = []\<rparr>"

subsection \<open>login and logout\<close>

text \<open>
  The outcome of the awaited \<open>axios.post\<close> is an input: the thrown error, or the token of
  the response. \<open>stringify\<close> stands for \<open>JSON.stringify({serverUrl, token})\<close>.
\<close>

definition login ::
  "(string \<Rightarrow> string \<Rightarrow> string) \<Rightarrow> string \<Rightarrow> string \<Rightarrow> string \<Rightarrow> thrown + string \<Rightarrow> world
     \<Rightarrow> (thrown + unit) \<times> world" where
  "login stringify url username password response w =
     (let normalizedUrl = normalizeServerUrl url in
      if normalizedUrl = [] then
        (Inl (OtherError ''Missing server URL''),
         w\<lparr>store := (store w)\<lparr>error_message := Some ''Please provide a server URL.''\<rparr>\<rparr>)
      else
        (let w1 = w\<lparr>store := (store w)\<lparr>status := connecting, error_message := None,
                                          loading := True, serverUrl := normalizedUrl\<rparr>,
                     requests := requests w @
                       [LoginPost (normalizedUrl @ ''/api/auth/login'') username password]\<rparr>
         in case response of
              Inr tok \<Rightarrow>
                (Inr (),
                 setItem SESSION_STORAGE_KEY (stringify normalizedUrl tok)
                   (w1\<lparr>store := (store w1)\<lparr>token := tok, status := connected, loading := False\<rparr>\<rparr>))
            | Inl err \<Rightarrow>
                (Inl err,
                 removeItem SESSION_STORAGE_KEY
                   (w1\<lparr>store := (store w1)\<lparr>status := disconnected, loading := False,
                        error_message := Some (errorMessage ''Unable to authenticate'' err),
                        token := []\<rparr>\<rparr>))))"

definition logout :: "world \<Rightarrow> world" where
  "logout w =
     removeItem SESSION_STORAGE_KEY
       (w\<lparr>store := (store w)\<lparr>token := [], status := disconnected, socketConnected := False,
                                commands := [], history := []\<rparr>\<rparr>)"

subsection \<open>fetchData\<close>



subsection \<open>execute\<close>

definition execute ::
  "string \<Rightarrow> string list \<Rightarrow> thrown + ExecutionLog \<Rightarrow> world \<Rightarrow> (thrown + string) \<times> world" where
  "execute commandId parameters response w =
     (if serverUrl (store w) = [] \<or> token (store w) = [] then
        (Inl (OtherError ''Not authenticated''), w)
      else
        (let w1 = w\<lparr>requests := requests w @
                       [ExecutePost (serverUrl (store w) @ ''/api/commands/'' @ commandId @ ''/execute'')
                          (token (store w)) parameters]\<rparr>
         in case response of
              Inr log \<Rightarrow> (Inr (log_id log), w1)
            | Inl err \<Rightarrow>
                (Inl err,
                 w1\<lparr>store := (store w1)\<lparr>error_message := Some (errorMessage ''Command failed'' err)\<rparr>\<rparr>)))"

subsection \<open>integrateEvent\<close>

fun integrateEvent :: "('k::linorder) runtime \<Rightarrow> ServerEvent \<Rightarrow> StoreState \<Rightarrow> StoreState" where
  "integrateEvent rt (command_created p) state =
     state\<lparr>commands := array_sort (byName rt)
       (p # filter (\<lambda>c. cmd_id c \<noteq> cmd_id p) (commands state))\<rparr>"
| "integrateEvent rt (command_updated p) state =
     state\<lparr>commands := array_sort (byName rt)
       (p # filter (\<lambda>c. cmd_id c \<noteq> cmd_id p) (commands state))\<rparr>"
| "integrateEvent rt (command_deleted i) state =
     state\<lparr>commands := filter (\<lambda>command. cmd_id command \<noteq> i) (commands state)\<rparr>"
| "integrateEvent rt (execution_started p) state =
     state\<lparr>history := take 100 (array_sort (byStartedAtDesc rt)
       (p # filter (\<lambda>item. log_id item \<noteq> log_id p) (history state)))\<rparr>"
| "integrateEvent rt (execution_updated p) state =
     state\<lparr>history := take 100 (array_sort (byStartedAtDesc rt)
       (p # filter (\<lambda>item. log_id item \<noteq> log_id p) (history state)))\<rparr>"
| "integrateEvent rt (execution_finished p) state =
     state\<lparr>history := take 100 (array_sort (byStartedAtDesc rt)
       (p # filter (\<lambda>item. log_id item \<noteq> log_id p) (history state)))\<rparr>"

subsection \<open>CommandDetailSheet.handleExecute and Dashboard.handleExecute\<close>

text \<open>\<open>String.prototype.split\<close> on a one-character separator and \<open>Array.prototype.join\<close>.\<close>

fun string_split :: "char \<Rightarrow> string \<Rightarrow> string list" where
  "string_split sep [] = [[]]"
| "string_split sep (c # cs) =
     (if c = sep then [] # string_split sep cs
      else (case string_split sep cs of
              [] \<Rightarrow> [[c]]
            | piece # pieces \<Rightarrow> (c # piece) # pieces))"

fun join :: "string \<Rightarrow> string list \<Rightarrow> string" where
  "join sep [] = []"
| "join sep [x] = x"
| "join sep (x # y # ys) = x @ sep @ join sep (y # ys)"

definition parseParameters :: "string \<Rightarrow> string list" where
  "parseParameters parameterInput =
     filter (\<lambda>v. v \<noteq> []) (map trim (string_split CHR 0x0A parameterInput))"

definition clearError :: "world \<Rightarrow> world" where
  "clearError w = w\<lparr>store := (store w)\<lparr>error_message := None\<rparr>\<rparr>"

text \<open>
  The sheet is rendered for the selected command, so \<open>onExecute\<close> (the dashboard's
  \<open>handleExecute\<close>) clears the store error and awaits \<open>execute\<close> for that command. The
  result pairs the sheet's own \<open>error\<close> state with the world after the call.
\<close>

definition handleExecute ::
  "CommandDefinition \<Rightarrow> string \<Rightarrow> thrown + ExecutionLog \<Rightarrow> world \<Rightarrow> string option \<times> world" where
  "handleExecute command parameterInput response w =
     (let parameters = parseParameters parameterInput in
      if \<not> cmd_allowArguments command \<and> parameters \<noteq> []
           \<and> join '','' parameters \<noteq> join '','' (cmd_args command)
      then (Some ''This command does not accept custom parameters. Please reset to defaults.'', w)
      else
        (case execute (cmd_id command) parameters response (clearError w) of
           (Inl err, w') \<Rightarrow> (Some (thrownMessage err), w')
         | (Inr executionId, w') \<Rightarrow> (None, w')))"

section \<open>The server console's listener (useCommandCenterData)\<close>

text \<open>\<open>Array.prototype.findIndex\<close>: the first index whose element satisfies the test, or -1.\<close>

fun findIndex :: "('a \<Rightarrow> bool) \<Rightarrow> 'a list \<Rightarrow> int" where
  "findIndex P [] = - 1"
| "findIndex P (x # xs) =
     (if P x then 0 else (let i = findIndex P xs in if i < 0 then - 1 else i + 1))"

record ConsoleState =
  console_commands :: "CommandDefinition list"
  console_history :: "ExecutionLog list"

definition upsertCommand :: "CommandDefinition \<Rightarrow> CommandDefinition list \<Rightarrow> CommandDefinition list" where
  "upsertCommand p prev =
     (let existingIndex = findIndex (\<lambda>item. cmd_id item = cmd_id p) prev
      in if existingIndex \<ge> 0 then prev[nat existingIndex := p] else p # prev)"

definition upsertExecution :: "'k runtime \<Rightarrow> ExecutionLog \<Rightarrow> ExecutionLog list \<Rightarrow> ExecutionLog list" where
  "upsertExecution rt p prev =
     (let existingIndex = findIndex (\<lambda>item. log_id item = log_id p) prev
      in if existingIndex \<ge> 0 then prev[nat existingIndex := p]
         else array_sort (byStartedAtDesc rt) (p # prev))"

fun consoleEvent :: "'k runtime \<Rightarrow> ServerEvent \<Rightarrow> ConsoleState \<Rightarrow> ConsoleState" where
  "consoleEvent rt (command_created p) s = s\<lparr>console_commands := upsertCommand p (console_commands s)\<rparr>"
| "consoleEvent rt (command_updated p) s = s\<lparr>console_commands := upsertCommand p (console_commands s)\<rparr>"
| "consoleEvent rt (command_deleted i) s =
     s\<lparr>console_commands := filter (\<lambda>item. cmd_id item \<noteq> i) (console_commands s)\<rparr>"
| "consoleEvent rt (execution_started p) s = s\<lparr>console_history := upsertExecution rt p (console_history s)\<rparr>"
| "consoleEvent rt (execution_updated p) s = s\<lparr>console_history := upsertExecution rt p (console_history s)\<rparr>"
| "consoleEvent rt (execution_finished p) s = s\<lparr>console_history := upsertExecution rt p (console_history s)\<rparr>"

section \<open>Vocabulary of the properties\<close>

text \<open>Sort keys that induce the two comparators.\<close>

abbreviation nameKey :: "('k::linorder) runtime \<Rightarrow> CommandDefinition \<Rightarrow> 'k" where
  "nameKey rt c \<equiv> collationKey rt (toLowerCase rt (cmd_name c))"

abbreviation startedKey :: "'k runtime \<Rightarrow> ExecutionLog \<Rightarrow> int" where
  "startedKey rt l \<equiv> - dayjsValueOf rt (log_startedAt l)"





definition uniqueIds :: "StoreState \<Rightarrow> bool" where
  "uniqueIds st = (distinct (map cmd_id (commands st)) \<and> distinct (map log_id (history st)))"

definition consoleUniqueIds :: "ConsoleState \<Rightarrow> bool" where
  "consoleUniqueIds s = (distinct (map cmd_id (console_commands s)) \<and> distinct (map log_id (console_history s)))"

definition commaFree :: "string list \<Rightarrow> bool" where
  "commaFree xs = list_all (\<lambda>x. CHR '','' \<notin> set x) xs"




section \<open>Concrete values for the instances below\<close>

text \<open>
  A runtime for evaluating instances: ASCII lower-casing, collation by code units, and
  the epoch milliseconds of the two timestamps used.
\<close>

definition demoValueOf :: "string \<Rightarrow> int" where
  "demoValueOf s =
     (if s = ''2024-01-01T00:00:00Z'' then 1704067200000
      else if s = ''2024-01-02T00:00:00Z'' then 1704153600000
      else 0)"

definition demoRuntime :: "nat list runtime" where
  "demoRuntime = \<lparr>toLowerCase = map asciiLower, collationKey = map of_char, dayjsValueOf = demoValueOf\<rparr>"

definition demoCommand :: "string \<Rightarrow> string \<Rightarrow> string list \<Rightarrow> bool \<Rightarrow> CommandDefinition" where
  "demoCommand i n as allow =
     \<lparr>cmd_id = i, cmd_name = n, cmd_executable = ''/bin/echo'', cmd_args = as,
      cmd_description = None, cmd_tags = [], cmd_allowArguments = allow,
      cmd_createdAt = ''2024-01-01T00:00:00Z'', cmd_updatedAt = ''2024-01-01T00:00:00Z''\<rparr>"

definition demoLog :: "string \<Rightarrow> ExecutionStatus \<Rightarrow> string \<Rightarrow> ExecutionLog" where
  "demoLog i st started =
     \<lparr>log_id = i, log_commandId = ''c1'', log_commandName = ''Alpha'', log_requestedBy = ''admin'',
      log_status = st, log_output = [], log_error = None, log_parameters = [],
      log_startedAt = started, log_finishedAt = None\<rparr>"

definition demoStore :: StoreState where
  "demoStore =
     \<lparr>serverUrl = ''https://cc.local:6280'', token = ''t0'', status = connected,
      socketConnected = True, loading = False, error_message = None,
      commands = [demoCommand ''c1'' ''Alpha'' [''a'', ''b''] False],
      history = [demoLog ''e1'' running ''2024-01-01T00:00:00Z'']\<rparr>"

definition demoWorld :: world where
  "demoWorld =
     \<lparr>store = demoStore,
      localStorage = Some [SESSION_STORAGE_KEY \<mapsto> ''{session}''],
      requests = []\<rparr>"

definition demoParse :: jsonParse where
  "demoParse s = (if s = ''{session}'' then Some (Some ''https://cc.local:6280'', Some ''t0'') else None)"

definition demoStringify :: "string \<Rightarrow> string \<Rightarrow> string" where
  "demoStringify u t = ''{session}''"



definition demoConsole :: ConsoleState where
  "demoConsole = \<lparr>console_commands = [demoCommand ''c1'' ''Alpha'' [] True],
                   console_history = [demoLog ''e1'' running ''2024-01-01T00:00:00Z'']\<rparr>"

definition demoEvents :: "ServerEvent list" where
  "demoEvents =
     [execution_started (demoLog ''e2'' pending ''2024-01-02T00:00:00Z''),
      command_updated (demoCommand ''c1'' ''alpha 2'' [] True),
      execution_finished (demoLog ''e2'' success ''2024-01-02T00:00:00Z''),
      command_created (demoCommand ''c2'' ''Beta'' [] True)]"

definition demoRejected :: thrown where
  "demoRejected = AxiosError ''Request failed with status code 401'' (Some ''Invalid credentials'') (Some ''Unauthorized'')"

section \<open>Sorting lemmas\<close>

lemma insertBy_insort_key:
  assumes "\<And>a b. (cmp a b \<le> 0) = (k a \<le> k b)"
  shows "insertBy cmp x xs = insort_key k x xs"
  by (induction xs) (simp_all add: assms)

lemma array_sort_sort_key:
  assumes "\<And>a b. (cmp a b \<le> 0) = (k a \<le> k b)"
  shows "array_sort cmp xs = sort_key k xs"
  by (induction xs) (simp_all add: array_sort_def insertBy_insort_key[OF assms])

lemma byName_key:
  "(byName rt a b \<le> 0) = (collationKey rt (toLowerCase rt (cmd_name a)) \<le> collationKey rt (toLowerCase rt (cmd_name b)))"
  by (auto simp: byName_def localeCompare_def)

lemma byStartedAtDesc_key:
  "(byStartedAtDesc rt a b \<le> 0) = (- dayjsValueOf rt (log_startedAt a) \<le> - dayjsValueOf rt (log_startedAt b))"
  by (auto simp: byStartedAtDesc_def)

lemma sort_byName: "array_sort (byName rt) xs = sort_key (nameKey rt) xs"
  by (rule array_sort_sort_key) (rule byName_key)

lemma sort_byStartedAtDesc: "array_sort (byStartedAtDesc rt) xs = sort_key (startedKey rt) xs"
  by (rule array_sort_sort_key) (rule byStartedAtDesc_key)

lemma filter_upsert:
  "filter (\<lambda>x. i x \<noteq> i p) (insort_key k p (sort_key k (filter (\<lambda>x. i x \<noteq> i p) xs)))
     = sort_key k (filter (\<lambda>x. i x \<noteq> i p) xs)"
  by (simp add: filter_insort_triv filter_sort)

lemma upsert_sorted_idem:
  "sort_key k (p # filter (\<lambda>x. i x \<noteq> i p) (sort_key k (p # filter (\<lambda>x. i x \<noteq> i p) xs)))
     = sort_key k (p # filter (\<lambda>x. i x \<noteq> i p) xs)"
  by (simp add: filter_upsert sort_key_id_if_sorted)

lemma take_insort_refill:
  assumes "sorted (map k S)" and "\<forall>x\<in>set S. i x \<noteq> i p"
  shows "take n (insort_key k p (filter (\<lambda>x. i x \<noteq> i p) (take n (insort_key k p S))))
           = take n (insort_key k p S)"
  using assms
proof (induction S arbitrary: n)
  case Nil
  then show ?case by (cases n) simp_all
next
  case (Cons y ys)
  show ?case
  proof (cases n)
    case 0
    then show ?thesis by simp
  next
    case (Suc m)
    show ?thesis
    proof (cases "k p \<le> k y")
      case True
      have f: "filter (\<lambda>x. i x \<noteq> i p) (take m (y # ys)) = take m (y # ys)"
        using Cons.prems(2) in_set_takeD[of _ m "y # ys"] unfolding filter_id_conv by blast
      have "\<forall>x\<in>set (take m (y # ys)). k p \<le> k x"
        using Cons.prems(1) True in_set_takeD[of _ m "y # ys"] by fastforce
      then have "insort_key k p (take m (y # ys)) = p # take m (y # ys)"
        by (rule insort_is_Cons)
      with True Suc f show ?thesis by simp
    next
      case False
      with Cons Suc show ?thesis by simp
    qed
  qed
qed

lemma sorted_filter_take_insort:
  "sorted (map k S) \<Longrightarrow> sorted (map k (filter P (take n (insort_key k p S))))"
  by (intro sorted_filter) (simp add: take_map[symmetric] sorted_wrt_take sorted_insort_key del: take_map)

lemma upsert_bounded_idem:
  "take n (sort_key k (p # filter (\<lambda>x. i x \<noteq> i p) (take n (sort_key k (p # filter (\<lambda>x. i x \<noteq> i p) xs)))))
     = take n (sort_key k (p # filter (\<lambda>x. i x \<noteq> i p) xs))"
proof -
  let ?S = "sort_key k (filter (\<lambda>x. i x \<noteq> i p) xs)"
  have s: "sorted (map k ?S)" by simp
  have n: "\<forall>x\<in>set ?S. i x \<noteq> i p" by simp
  have "sort_key k (filter (\<lambda>x. i x \<noteq> i p) (take n (insort_key k p ?S)))
          = filter (\<lambda>x. i x \<noteq> i p) (take n (insort_key k p ?S))"
    by (rule sort_key_id_if_sorted) (rule sorted_filter_take_insort[OF s])
  then show ?thesis
    using take_insort_refill[OF s n, of n] by simp
qed

lemma integrateEvent_twice:
  "integrateEvent rt ev (integrateEvent rt ev state) = integrateEvent rt ev state"
proof (cases ev)
  case (command_created p)
  then show ?thesis by (simp add: sort_byName upsert_sorted_idem del: sort_key_simps)
next
  case (command_updated p)
  then show ?thesis by (simp add: sort_byName upsert_sorted_idem del: sort_key_simps)
next
  case (command_deleted i)
  then show ?thesis by simp
next
  case (execution_started p)
  then show ?thesis by (simp add: sort_byStartedAtDesc upsert_bounded_idem del: sort_key_simps)
next
  case (execution_updated p)
  then show ?thesis by (simp add: sort_byStartedAtDesc upsert_bounded_idem del: sort_key_simps)
next
  case (execution_finished p)
  then show ?thesis by (simp add: sort_byStartedAtDesc upsert_bounded_idem del: sort_key_simps)
qed

subsection \<open>The console's replace-in-place step\<close>

lemma findIndex_lower: "- 1 \<le> findIndex P xs"
  by (induction xs) (simp_all add: Let_def)

lemma findIndex_neg_iff: "(findIndex P xs < 0) = (\<forall>x\<in>set xs. \<not> P x)"
  using findIndex_lower[of P] by (induction xs) (auto simp: Let_def)

lemma findIndex_hit:
  "0 \<le> findIndex P xs \<Longrightarrow> nat (findIndex P xs) < length xs \<and> P (xs ! nat (findIndex P xs))"
proof (induction xs)
  case Nil
  then show ?case by simp
next
  case (Cons x xs)
  show ?case
  proof (cases "P x")
    case True
    then show ?thesis by simp
  next
    case False
    with Cons.prems have nn: "0 \<le> findIndex P xs"
      by (simp add: Let_def split: if_splits)
    with False Cons.IH show ?thesis
      by (simp add: Let_def nat_add_distrib)
  qed
qed

lemma findIndex_update:
  "P p \<Longrightarrow> 0 \<le> findIndex P xs \<Longrightarrow> findIndex P (xs[nat (findIndex P xs) := p]) = findIndex P xs"
proof (induction xs)
  case Nil
  then show ?case by simp
next
  case (Cons x xs)
  show ?case
  proof (cases "P x")
    case True
    with Cons.prems show ?thesis by simp
  next
    case False
    with Cons.prems have nn: "0 \<le> findIndex P xs"
      by (simp add: Let_def split: if_splits)
    then have "nat (findIndex P xs + 1) = Suc (nat (findIndex P xs))" by simp
    with False nn Cons.IH[OF Cons.prems(1) nn] show ?thesis
      by (simp add: Let_def)
  qed
qed

lemma replace_again:
  assumes "P p" and "0 \<le> findIndex P xs"
  shows "(xs[nat (findIndex P xs) := p])[nat (findIndex P (xs[nat (findIndex P xs) := p])) := p]
           = xs[nat (findIndex P xs) := p]"
  by (simp add: findIndex_update[OF assms])

lemma upsertCommand_twice: "upsertCommand p (upsertCommand p prev) = upsertCommand p prev"
proof (cases "0 \<le> findIndex (\<lambda>item. cmd_id item = cmd_id p) prev")
  case True
  then show ?thesis
    by (simp add: upsertCommand_def Let_def findIndex_update)
next
  case False
  then show ?thesis by (simp add: upsertCommand_def Let_def)
qed

lemma replace_only_match:
  assumes "P p" and "set ys = insert p (set prev)" and "\<forall>x\<in>set prev. \<not> P x"
  shows "0 \<le> findIndex P ys \<and> ys[nat (findIndex P ys) := p] = ys"
proof -
  have "\<not> findIndex P ys < 0"
    unfolding findIndex_neg_iff using assms(1,2) by auto
  then have nn: "0 \<le> findIndex P ys" by simp
  from findIndex_hit[OF nn] have h: "nat (findIndex P ys) < length ys" "P (ys ! nat (findIndex P ys))"
    by simp_all
  then have "ys ! nat (findIndex P ys) \<in> set ys" by simp
  with h(2) assms(2,3) have "ys ! nat (findIndex P ys) = p" by auto
  then show ?thesis using nn by (metis list_update_id)
qed

lemma upsertExecution_twice: "upsertExecution rt p (upsertExecution rt p prev) = upsertExecution rt p prev"
proof (cases "0 \<le> findIndex (\<lambda>item. log_id item = log_id p) prev")
  case True
  then show ?thesis
    by (simp add: upsertExecution_def Let_def findIndex_update)
next
  case False
  then have none: "\<forall>x\<in>set prev. \<not> log_id x = log_id p"
    using findIndex_neg_iff[of "\<lambda>item. log_id item = log_id p" prev] by simp
  have "set (array_sort (byStartedAtDesc rt) (p # prev)) = insert p (set prev)"
    by (simp add: sort_byStartedAtDesc del: sort_key_simps)
  from replace_only_match[of "\<lambda>item. log_id item = log_id p" p, OF refl this none] False
  show ?thesis
    by (simp add: upsertExecution_def Let_def)
qed

lemma consoleEvent_twice: "consoleEvent rt ev (consoleEvent rt ev s) = consoleEvent rt ev s"
  by (cases ev) (simp_all add: upsertCommand_twice upsertExecution_twice)

subsection \<open>Identifier uniqueness under the merge steps\<close>

lemma distinct_ids_sort: "distinct (map i (sort_key k xs)) = distinct (map i xs)"
  by (simp add: distinct_map)

lemma distinct_ids_upsert:
  assumes "distinct (map i xs)"
  shows "distinct (map i (sort_key k (p # filter (\<lambda>x. i x \<noteq> i p) xs)))"
proof -
  have "distinct (map i (p # filter (\<lambda>x. i x \<noteq> i p) xs))"
    using assms by (auto simp: distinct_map_filter)
  then show ?thesis by (simp only: distinct_ids_sort)
qed

lemma distinct_ids_take: "distinct (map i xs) \<Longrightarrow> distinct (map i (take n xs))"
  by (simp add: take_map[symmetric] del: take_map)

lemma map_replace_first:
  assumes "0 \<le> findIndex (\<lambda>x. i x = i p) xs"
  shows "map i (xs[nat (findIndex (\<lambda>x. i x = i p) xs) := p]) = map i xs"
  using findIndex_hit[OF assms] by (simp add: map_update list_update_same_conv)

subsection \<open>Uniqueness, ordering and the history window\<close>

lemma integrateEvent_uniqueIds: "uniqueIds st \<Longrightarrow> uniqueIds (integrateEvent rt ev st)"
  by (cases ev)
     (simp_all add: uniqueIds_def sort_byName sort_byStartedAtDesc distinct_ids_upsert
        distinct_ids_take distinct_map_filter del: sort_key_simps)

lemma fold_integrateEvent_uniqueIds: "uniqueIds st \<Longrightarrow> uniqueIds (fold (integrateEvent rt) evs st)"
  by (induction evs arbitrary: st) (simp_all add: integrateEvent_uniqueIds)

lemma upsertCommand_distinct:
  "distinct (map cmd_id prev) \<Longrightarrow> distinct (map cmd_id (upsertCommand p prev))"
proof (cases "0 \<le> findIndex (\<lambda>x. cmd_id x = cmd_id p) prev")
  case True
  assume "distinct (map cmd_id prev)"
  with True map_replace_first[of cmd_id p prev] show ?thesis
    by (simp add: upsertCommand_def Let_def)
next
  case False
  assume d: "distinct (map cmd_id prev)"
  from False have "\<forall>x\<in>set prev. \<not> cmd_id x = cmd_id p"
    using findIndex_neg_iff[of "\<lambda>x. cmd_id x = cmd_id p" prev] by simp
  with d False show ?thesis
    by (auto simp: upsertCommand_def Let_def)
qed

lemma upsertExecution_distinct:
  "distinct (map log_id prev) \<Longrightarrow> distinct (map log_id (upsertExecution rt p prev))"
proof (cases "0 \<le> findIndex (\<lambda>x. log_id x = log_id p) prev")
  case True
  assume "distinct (map log_id prev)"
  with True map_replace_first[of log_id p prev] show ?thesis
    by (simp add: upsertExecution_def Let_def)
next
  case False
  assume d: "distinct (map log_id prev)"
  from False have "\<forall>x\<in>set prev. \<not> log_id x = log_id p"
    using findIndex_neg_iff[of "\<lambda>x. log_id x = log_id p" prev] by simp
  with d have "distinct (map log_id (p # prev))" by auto
  with False show ?thesis
    by (simp add: upsertExecution_def Let_def sort_byStartedAtDesc distinct_ids_sort del: sort_key_simps distinct.simps list.map)
qed

lemma consoleEvent_uniqueIds: "consoleUniqueIds s \<Longrightarrow> consoleUniqueIds (consoleEvent rt ev s)"
  by (cases ev)
     (simp_all add: consoleUniqueIds_def upsertCommand_distinct upsertExecution_distinct distinct_map_filter)

lemma fold_consoleEvent_uniqueIds: "consoleUniqueIds s \<Longrightarrow> consoleUniqueIds (fold (consoleEvent rt) evs s)"
  by (induction evs arbitrary: s) (simp_all add: consoleEvent_uniqueIds)













lemma fold_last: "evs \<noteq> [] \<Longrightarrow> fold f evs s = f (last evs) (fold f (butlast evs) s)"
  by (induction evs arbitrary: s) auto





subsection \<open>URL normalisation, the parameter guard and durable storage\<close>















lemma example_url: "normalizeServerUrl ''cc.local:6280'' = ''https://cc.local:6280''"
  by (simp add: normalizeServerUrl_def trim_def isWhiteSpace_def hasHttpScheme_def asciiLower_def Let_def)

lemma string_split_not_Nil: "string_split sep s \<noteq> []"
  by (induction s) (auto split: list.splits)

lemma string_split_append:
  "sep \<notin> set x \<Longrightarrow>
     string_split sep (x @ r) = (x @ hd (string_split sep r)) # tl (string_split sep r)"
proof (induction x)
  case Nil
  then show ?case using string_split_not_Nil[of sep r] by simp
next
  case (Cons c cs)
  then show ?case by (auto split: list.splits)
qed

lemma string_split_join:
  "xs \<noteq> [] \<Longrightarrow> \<forall>x\<in>set xs. sep \<notin> set x \<Longrightarrow> string_split sep (join [sep] xs) = xs"
proof (induction xs)
  case Nil
  then show ?case by simp
next
  case (Cons x xs)
  show ?case
  proof (cases xs)
    case Nil
    with Cons.prems show ?thesis
      using string_split_append[of sep x "[]"] by simp
  next
    case (Cons y ys)
    with Cons.prems Cons.IH have "string_split sep (join [sep] xs) = xs" by simp
    with Cons Cons.prems show ?thesis
      using string_split_append[of sep x "sep # join [sep] xs"] by simp
  qed
qed

lemma join_head_nonempty: "p \<noteq> [] \<Longrightarrow> join sep (p # ps) \<noteq> []"
  by (cases ps) simp_all

lemma parseParameters_nonempty: "\<forall>p\<in>set (parseParameters s). p \<noteq> []"
  by (simp add: parseParameters_def)

lemma join_differs:
  assumes "ps \<noteq> []" and "\<forall>p\<in>set ps. p \<noteq> []" and "ps \<noteq> as" and "commaFree ps" and "commaFree as"
  shows "join '','' ps \<noteq> join '','' as"
proof (cases as)
  case Nil
  from assms(1,2) obtain p ps' where "ps = p # ps'" and "p \<noteq> []"
    by (cases ps) auto
  then have "join '','' ps \<noteq> []"
    using join_head_nonempty by blast
  moreover have "join '','' as = []"
    unfolding Nil by (rule join.simps(1))
  ultimately show ?thesis by metis
next
  case (Cons a as')
  then have ne: "as \<noteq> []" by blast
  have cp: "\<forall>x\<in>set ps. CHR '','' \<notin> set x"
    using assms(4) unfolding commaFree_def list_all_iff .
  have ca: "\<forall>x\<in>set as. CHR '','' \<notin> set x"
    using assms(5) unfolding commaFree_def list_all_iff .
  have sp: "string_split CHR '','' (join [CHR '',''] ps) = ps"
    using assms(1) cp by (rule string_split_join)
  have sa: "string_split CHR '','' (join [CHR '',''] as) = as"
    using ne ca by (rule string_split_join)
  show ?thesis
  proof
    assume "join '','' ps = join '','' as"
    with sp sa have "ps = as" by metis
    with assms(3) show False by blast
  qed
qed

lemma parse_x: "parseParameters ''x'' = [''x'']"
  by (simp add: parseParameters_def trim_def isWhiteSpace_def)

lemma parse_ab: "parseParameters ''a,b'' = [''a,b'']"
  by (simp add: parseParameters_def trim_def isWhiteSpace_def)

lemma getItem_removeItem: "getItem (removeItem k w) k = None"
  by (cases "localStorage w") (simp_all add: getItem_def removeItem_def)

lemma store_removeItem: "store (removeItem k w) = store w"
  by (simp add: removeItem_def)


lemma requests_removeItem: "requests (removeItem k w) = requests w"
  by (simp add: removeItem_def)



section \<open>Claims\<close>

text \<open>
  C1. Reconciler idempotence: for every state and every inbound event of the six kinds,
  applying the event twice leaves the commands collection and the history collection
  exactly as applying it once does. This holds for the client store's \<open>integrateEvent\<close>
  and for the server console's listener alike.
\<close>

theorem reconciler_idempotent:
  "commands (integrateEvent rt ev (integrateEvent rt ev state)) = commands (integrateEvent rt ev state)
   \<and> history (integrateEvent rt ev (integrateEvent rt ev state)) = history (integrateEvent rt ev state)
   \<and> consoleEvent rt ev (consoleEvent rt ev s) = consoleEvent rt ev s"
  by (simp add: integrateEvent_twice consoleEvent_twice)




text \<open>
  C3. Uniqueness: starting from collections with pairwise distinct ids, every finite
  sequence of events leaves the commands collection and the history collection without
  two entries sharing an id, in the client store and in the server console.
\<close>

theorem upserts_keep_ids_unique:
  assumes "uniqueIds st" and "consoleUniqueIds s"
  shows "uniqueIds (fold (integrateEvent rt) evs st) \<and> consoleUniqueIds (fold (consoleEvent rt) evs s)"
  using assms by (simp add: fold_integrateEvent_uniqueIds fold_consoleEvent_uniqueIds)

theorem upserts_keep_ids_unique_witness:
  "uniqueIds demoStore \<and> consoleUniqueIds demoConsole
   \<and> uniqueIds (fold (integrateEvent demoRuntime) demoEvents demoStore)
   \<and> consoleUniqueIds (fold (consoleEvent demoRuntime) demoEvents demoConsole)"
proof -
  have a: "uniqueIds demoStore"
    by (simp add: uniqueIds_def demoStore_def demoCommand_def demoLog_def)
  have b: "consoleUniqueIds demoConsole"
    by (simp add: consoleUniqueIds_def demoConsole_def demoCommand_def demoLog_def)
  show ?thesis
    using a b upserts_keep_ids_unique[OF a b, of demoRuntime demoEvents] by simp
qed




text \<open>
  C5, as the code has it. The guard sits in the detail sheet's \<open>handleExecute\<close>, ahead of
  the store's \<open>execute\<close>: for a command with \<open>allowArguments = false\<close> and a non-empty
  parsed parameter list whose comma-joined text differs from that of the default args (in
  particular whenever the lists differ and no parameter or default arg contains a comma),
  it sets the sheet's error message and returns with the world unchanged, so no request
  is issued.
\<close>

theorem detail_sheet_guard:
  assumes "\<not> cmd_allowArguments command"
    and "parseParameters parameterInput \<noteq> []"
    and "join '','' (parseParameters parameterInput) \<noteq> join '','' (cmd_args command)
         \<or> (parseParameters parameterInput \<noteq> cmd_args command
            \<and> commaFree (parseParameters parameterInput) \<and> commaFree (cmd_args command))"
  shows "handleExecute command parameterInput response w
           = (Some ''This command does not accept custom parameters. Please reset to defaults.'', w)"
proof -
  have "join '','' (parseParameters parameterInput) \<noteq> join '','' (cmd_args command)"
    using assms(2,3) join_differs[OF assms(2) parseParameters_nonempty, of "cmd_args command"] by blast
  with assms(1,2) show ?thesis
    by (simp add: handleExecute_def Let_def)
qed

theorem detail_sheet_guard_witness:
  "\<not> cmd_allowArguments (demoCommand ''c1'' ''Alpha'' [''a'', ''b''] False)
   \<and> parseParameters ''x'' = [''x'']
   \<and> fst (handleExecute (demoCommand ''c1'' ''Alpha'' [''a'', ''b''] False) ''x''
          (Inr (demoLog ''e2'' pending ''2024-01-02T00:00:00Z'')) demoWorld)
       = Some ''This command does not accept custom parameters. Please reset to defaults.''
   \<and> requests (snd (handleExecute (demoCommand ''c1'' ''Alpha'' [''a'', ''b''] False) ''x''
          (Inr (demoLog ''e2'' pending ''2024-01-02T00:00:00Z'')) demoWorld)) = []"
proof -
  have a: "\<not> cmd_allowArguments (demoCommand ''c1'' ''Alpha'' [''a'', ''b''] False)"
    by (simp add: demoCommand_def)
  have b: "parseParameters ''x'' \<noteq> []" by (simp add: parse_x)
  have c: "join '','' (parseParameters ''x'') \<noteq> join '','' (cmd_args (demoCommand ''c1'' ''Alpha'' [''a'', ''b''] False))
         \<or> (parseParameters ''x'' \<noteq> cmd_args (demoCommand ''c1'' ''Alpha'' [''a'', ''b''] False)
            \<and> commaFree (parseParameters ''x'') \<and> commaFree (cmd_args (demoCommand ''c1'' ''Alpha'' [''a'', ''b''] False)))"
    by (simp add: parse_x demoCommand_def)
  show ?thesis
    using a detail_sheet_guard[OF a b c, of "Inr (demoLog ''e2'' pending ''2024-01-02T00:00:00Z'')" demoWorld]
    by (simp add: parse_x demoWorld_def)
qed

text \<open>
  C5 as stated fails: the store's \<open>execute\<close> has no guard and posts non-default parameters
  for a command with \<open>allowArguments = false\<close>; and through the sheet, the parameter list
  \<open>[a,b]\<close> of one element passes the comma-joined comparison with the default args
  \<open>[a, b]\<close> of two, and is posted.
\<close>

theorem execute_without_guard:
  "\<not> cmd_allowArguments (demoCommand ''c1'' ''Alpha'' [''a'', ''b''] False)
   \<and> execute ''c1'' [''x''] (Inr (demoLog ''e2'' pending ''2024-01-02T00:00:00Z'')) demoWorld
       = (Inr ''e2'', demoWorld\<lparr>requests :=
            [ExecutePost ''https://cc.local:6280/api/commands/c1/execute'' ''t0'' [''x'']]\<rparr>)
   \<and> parseParameters ''a,b'' = [''a,b'']
   \<and> fst (handleExecute (demoCommand ''c1'' ''Alpha'' [''a'', ''b''] False) ''a,b''
          (Inr (demoLog ''e2'' pending ''2024-01-02T00:00:00Z'')) demoWorld) = None
   \<and> requests (snd (handleExecute (demoCommand ''c1'' ''Alpha'' [''a'', ''b''] False) ''a,b''
          (Inr (demoLog ''e2'' pending ''2024-01-02T00:00:00Z'')) demoWorld))
       = [ExecutePost ''https://cc.local:6280/api/commands/c1/execute'' ''t0'' [''a,b'']]"
  by (simp add: parse_ab handleExecute_def execute_def clearError_def demoWorld_def demoStore_def
        demoCommand_def demoLog_def Let_def)



text \<open>
  C7. Session teardown: after \<open>logout\<close>, from any state, the token is empty, the status is
  disconnected, both collections are empty and durable storage holds no session record.
\<close>

theorem logout_teardown:
  "token (store (logout w)) = []
   \<and> status (store (logout w)) = disconnected
   \<and> commands (store (logout w)) = []
   \<and> history (store (logout w)) = []
   \<and> getItem (logout w) SESSION_STORAGE_KEY = None"
  by (simp add: logout_def getItem_removeItem store_removeItem)



text \<open>
  C9. Session hydration: when durable storage holds a session record that parses and
  carries a non-empty token, the store starts with that server URL and token and with
  status connecting; when there is no such record, it starts disconnected with an empty
  token; it never starts connected.
\<close>

theorem session_hydration:
  "(window = Some ls \<and> ls SESSION_STORAGE_KEY = Some stored \<and> stored \<noteq> []
      \<and> parse stored = Some (url, Some tok) \<and> tok \<noteq> [] \<longrightarrow>
        serverUrl (initialStore parse window) = orEmpty url
        \<and> token (initialStore parse window) = tok
        \<and> status (initialStore parse window) = connecting)
   \<and> ((\<nexists>ls' stored' url' tok'. window = Some ls' \<and> ls' SESSION_STORAGE_KEY = Some stored' \<and> stored' \<noteq> []
          \<and> parse stored' = Some (url', Some tok') \<and> tok' \<noteq> []) \<longrightarrow>
        token (initialStore parse window) = []
        \<and> status (initialStore parse window) = disconnected)
   \<and> status (initialStore parse window) \<noteq> connected"
  by (auto simp: initialStore_def initialSession_def orEmpty_def split: option.splits list.splits)

theorem session_hydration_witness:
  "serverUrl (initialStore demoParse (localStorage demoWorld)) = ''https://cc.local:6280''
   \<and> token (initialStore demoParse (localStorage demoWorld)) = ''t0''
   \<and> status (initialStore demoParse (localStorage demoWorld)) = connecting
   \<and> token (initialStore demoParse (Some Map.empty)) = []
   \<and> status (initialStore demoParse (Some Map.empty)) = disconnected"
  using session_hydration[of "localStorage demoWorld" "[SESSION_STORAGE_KEY \<mapsto> ''{session}'']" "''{session}''"
      demoParse "Some ''https://cc.local:6280''" "''t0''"]
    session_hydration[of "Some Map.empty" Map.empty "[]" demoParse None "[]"]
  by (simp add: demoWorld_def demoParse_def orEmpty_def)

text \<open>
  C10. A login attempt whose request fails (rejected response or network failure) leaves
  the token empty, the status disconnected and no session record in durable storage,
  whatever session was stored before.
\<close>

theorem failed_login_destroys_session:
  assumes "normalizeServerUrl url \<noteq> []"
  shows "fst (login stringify url username password (Inl err) w) = Inl err
       \<and> token (store (snd (login stringify url username password (Inl err) w))) = []
       \<and> status (store (snd (login stringify url username password (Inl err) w))) = disconnected
       \<and> getItem (snd (login stringify url username password (Inl err) w)) SESSION_STORAGE_KEY = None
       \<and> requests (snd (login stringify url username password (Inl err) w))
           = requests w @ [LoginPost (normalizeServerUrl url @ ''/api/auth/login'') username password]"
  using assms
  by (simp add: login_def Let_def getItem_removeItem store_removeItem requests_removeItem)

theorem failed_login_destroys_session_witness:
  "normalizeServerUrl ''cc.local:6280'' \<noteq> []
   \<and> token (store demoWorld) = ''t0''
   \<and> getItem demoWorld SESSION_STORAGE_KEY = Some ''{session}''
   \<and> token (store (snd (login demoStringify ''cc.local:6280'' ''admin'' ''wrong'' (Inl demoRejected) demoWorld))) = []
   \<and> status (store (snd (login demoStringify ''cc.local:6280'' ''admin'' ''wrong'' (Inl demoRejected) demoWorld))) = disconnected
   \<and> getItem (snd (login demoStringify ''cc.local:6280'' ''admin'' ''wrong'' (Inl demoRejected) demoWorld))
         SESSION_STORAGE_KEY = None"
proof -
  have a: "normalizeServerUrl ''cc.local:6280'' \<noteq> []"
    by (simp add: example_url)
  show ?thesis
    using a failed_login_destroys_session[OF a, of demoStringify "''admin''" "''wrong''" demoRejected demoWorld]
    by (simp add: demoWorld_def demoStore_def getItem_def)
qed

end
